theory Spec2Isabelle
  imports Complex_Main
begin

section \<open>Salary advance and loan API (Backend/main.py)\<close>

text \<open>
  The embedding follows \<^verbatim>\<open>src/Backend/main.py\<close>. Python floats are read as real
  numbers: every finite double is a real, and a sum, product or quotient of the source
  is the exact one. The double format is kept where it decides whether Python's own
  float arithmetic raises, which is in the payment formula of the schedule: a power
  that leaves the double range raises \<open>OverflowError\<close>, and the sum
  \<^verbatim>\<open>1 + monthly_rate\<close> is 1.0 for a monthly rate within half a unit in the last
  place of 1, so that the formula divides by zero. numpy's arithmetic does not raise:
  its power of base zero to a negative exponent and of a negative base to a fractional
  exponent are kept as the value \<open>NonFin\<close>, and its other results as real numbers.
  Python exceptions are values of \<open>pyerr\<close>; the endpoint turns them into
  \<open>http_error\<close> as its two \<^verbatim>\<open>except\<close> clauses do.
\<close>

subsection \<open>Numbers\<close>

datatype fval = Fin real | NonFin

datatype pyerr = ValueError string | ZeroDivisionError | OverflowError

datatype http_error = HTTPException int string

text \<open>\<^verbatim>\<open>round(x, 2)\<close> and \<^verbatim>\<open>DataFrame.round(2)\<close>: to the nearest hundredth, ties to even.\<close>

definition round_half_even :: "real \<Rightarrow> int" where
  "round_half_even x =
     (let f = \<lfloor>x\<rfloor>; d = x - of_int f
      in if d < 1 / 2 then f
         else if 1 / 2 < d then f + 1
         else if even f then f else f + 1)"

definition round2 :: "real \<Rightarrow> real" where
  "round2 x = of_int (round_half_even (x * 100)) / 100"

fun fval_round2 :: "fval \<Rightarrow> fval" where
  "fval_round2 (Fin x) = Fin (round2 x)"
| "fval_round2 NonFin = NonFin"

fun fval_times :: "real \<Rightarrow> fval \<Rightarrow> fval" where
  "fval_times p (Fin x) = Fin (p * x)"
| "fval_times p NonFin = NonFin"

text \<open>
  \<^verbatim>\<open>Series ** Series\<close> on float64 columns (numpy's power): an integer-valued exponent
  gives the signed integer power, a positive base the real power; zero to a negative
  exponent is \<^verbatim>\<open>inf\<close> and a negative base to a fractional exponent is \<^verbatim>\<open>nan\<close>.
\<close>

definition np_power :: "real \<Rightarrow> real \<Rightarrow> fval" where
  "np_power b e =
     (if e = of_int \<lfloor>e\<rfloor> then
        (if b = 0 \<and> e < 0 then NonFin else Fin (b powi \<lfloor>e\<rfloor>))
      else if 0 < b then Fin (b powr e)
      else if b = 0 then (if 0 < e then Fin 0 else NonFin)
      else NonFin)"

text \<open>
  The double format. A magnitude of \<open>2^1024 - 2^970\<close> or more has no finite double
  nearest to it. The doubles next to 1 are \<open>1 - 2^-53\<close> and \<open>1 + 2^-52\<close>, so the
  double sum \<^verbatim>\<open>1 + x\<close> is 1.0 exactly for \<open>- 2^-54 \<le> x \<le> 2^-53\<close> (a tie goes to the
  even neighbour, which is 1.0); outside that interval the sum is taken exactly.
\<close>

definition float_overflow_bound :: real where
  "float_overflow_bound = 2 ^ 1024 - 2 ^ 970"

definition float_one_plus :: "real \<Rightarrow> real" where
  "float_one_plus x = (if - (1 / 2 ^ 54) \<le> x \<and> x \<le> 1 / 2 ^ 53 then 1 else 1 + x)"

text \<open>
  \<^verbatim>\<open>float ** int\<close> and \<^verbatim>\<open>float / float\<close> on Python's own floats, which raise. The
  power first converts its int exponent to a float (\<open>OverflowError\<close> when it is too
  large), raises \<open>ZeroDivisionError\<close> for zero to a negative power, and raises
  \<open>OverflowError\<close> when the result leaves the double range.
\<close>

definition py_pow :: "real \<Rightarrow> int \<Rightarrow> pyerr + real" where
  "py_pow b n =
     (if float_overflow_bound \<le> \<bar>real_of_int n\<bar> then Inl OverflowError
      else if b = 0 \<and> n < 0 then Inl ZeroDivisionError
      else if float_overflow_bound \<le> \<bar>b powi n\<bar> then Inl OverflowError
      else Inr (b powi n))"

definition py_truediv :: "real \<Rightarrow> real \<Rightarrow> pyerr + real" where
  "py_truediv a b = (if b = 0 then Inl ZeroDivisionError else Inr (a / b))"

subsection \<open>Request, response and stored record\<close>

record AdvanceRequest =
  gross_salary :: real
  pay_frequency :: string
  advance_amount :: real
  loan_amount :: "real option"
  interest_rate :: "real option"
  loan_term :: "int option"
  include_amortization :: "bool option"

record amort_row =
  Month :: int
  Payment :: real
  Principal :: real
  Interest :: real
  Balance :: real

text \<open>
  The message of a response is an f-string; its shape and the numbers formatted into
  it are kept, the rendering of the digits is not.
\<close>

datatype message =
    MsgIneligible
  | MsgExceeds real real
  | MsgApproved real real "(fval \<times> int option) option"

record AdvanceResponse =
  eligible :: bool
  max_advance :: real
  approved_amount :: real
  fee :: real
  total_repayable :: "fval option"
  amortization_schedule :: "amort_row list option"
  message :: message
  loan_id :: "string option"

record loan_record =
  rec_loan_id :: string
  rec_advance_amount :: real
  rec_fee :: real
  rec_timestamp :: string
  rec_gross_salary :: real
  rec_pay_frequency :: string
  rec_loan_amount :: "real option"
  rec_interest_rate :: "real option"
  rec_loan_term :: "int option"
  rec_total_repayable :: "fval option"
  rec_amortization_schedule :: "amort_row list option"

type_synonym loans_db = "string \<rightharpoonup> loan_record"

subsection \<open>convert_to_monthly_salary\<close>

definition convert_to_monthly_salary :: "real \<Rightarrow> string \<Rightarrow> pyerr + real" where
  "convert_to_monthly_salary gross freq =
     (if freq = ''Weekly'' then Inr (gross * 52 / 12)
      else if freq = ''Bi-Weekly'' then Inr (gross * 26 / 12)
      else if freq = ''Monthly'' then Inr gross
      else if freq = ''Annually'' then Inr (gross / 12)
      else Inl (ValueError ''Invalid pay frequency''))"

subsection \<open>calculate_compound_interest\<close>

definition calculate_compound_interest :: "real \<Rightarrow> real \<Rightarrow> int \<Rightarrow> fval" where
  "calculate_compound_interest princ rate term_months =
     (let n = 12;
          t = real_of_int term_months / 12;
          rate' = rate / 100;
          rate_per_period = rate' / n;
          periods = n * t
      in fval_round2 (fval_times princ (np_power (1 + rate_per_period) periods)))"

subsection \<open>generate_amortization_schedule\<close>

text \<open>The column operations of the data frame, on lists of equal length.\<close>

fun cumsum_from :: "real \<Rightarrow> real list \<Rightarrow> real list" where
  "cumsum_from acc [] = []"
| "cumsum_from acc (x # xs) = (acc + x) # cumsum_from (acc + x) xs"

definition cumsum :: "real list \<Rightarrow> real list" where
  "cumsum xs = cumsum_from 0 xs"

definition shift1 :: "real \<Rightarrow> real list \<Rightarrow> real list" where
  "shift1 fill xs = (if xs = [] then [] else fill # butlast xs)"

definition monthly_payment_of :: "real \<Rightarrow> real \<Rightarrow> int \<Rightarrow> pyerr + real" where
  "monthly_payment_of princ monthly_rate term_months =
     (case py_pow (float_one_plus monthly_rate) term_months of
        Inl e \<Rightarrow> Inl e
      | Inr pw \<Rightarrow>
          (case py_truediv (princ * (monthly_rate * pw)) (pw - 1) of
             Inl e \<Rightarrow> Inl e
           | Inr q \<Rightarrow> Inr (round2 q)))"

definition schedule_rows :: "real \<Rightarrow> real \<Rightarrow> real \<Rightarrow> int \<Rightarrow> amort_row list" where
  "schedule_rows princ monthly_rate monthly_payment term_months =
     (let month_col = [1..term_months];
          balance_col = map (\<lambda>_. princ) month_col;
          payment_col = map (\<lambda>_. monthly_payment) month_col;
          interest_col = map (\<lambda>b. b * monthly_rate) balance_col;
          princ_col = map2 (\<lambda>p i. p - i) payment_col interest_col;
          balance_col' = map2 (\<lambda>b c. b - c) (shift1 princ balance_col) (cumsum princ_col);
          balance_col'' = map (max 0) balance_col'
      in map (\<lambda>(m, p, pr, i, b).
                \<lparr>Month = m, Payment = round2 p, Principal = round2 pr,
                 Interest = round2 i, Balance = round2 b\<rparr>)
           (zip month_col (zip payment_col (zip princ_col (zip interest_col balance_col'')))))"

definition generate_amortization_schedule :: "real \<Rightarrow> real \<Rightarrow> int \<Rightarrow> pyerr + amort_row list" where
  "generate_amortization_schedule princ rate term_months =
     (let monthly_rate = rate / 100 / 12
      in case monthly_payment_of princ monthly_rate term_months of
           Inl e \<Rightarrow> Inl e
         | Inr monthly_payment \<Rightarrow>
             Inr (schedule_rows princ monthly_rate monthly_payment term_months))"

subsection \<open>The endpoint calculate_advance and get_loan\<close>

text \<open>Truthiness of an optional number: present and not zero.\<close>

definition truthy_real :: "real option \<Rightarrow> bool" where
  "truthy_real x = (case x of None \<Rightarrow> False | Some v \<Rightarrow> v \<noteq> 0)"

definition truthy_int :: "int option \<Rightarrow> bool" where
  "truthy_int x = (case x of None \<Rightarrow> False | Some v \<Rightarrow> v \<noteq> 0)"

definition truthy_bool :: "bool option \<Rightarrow> bool" where
  "truthy_bool x = (case x of None \<Rightarrow> False | Some v \<Rightarrow> v)"

definition truthy_fval :: "fval option \<Rightarrow> bool" where
  "truthy_fval x = (case x of None \<Rightarrow> False | Some NonFin \<Rightarrow> True | Some (Fin v) \<Rightarrow> v \<noteq> 0)"

text \<open>Step 5 of the endpoint: the loan figures, computed only for a truthy loan triple.\<close>

definition loan_step :: "AdvanceRequest \<Rightarrow> pyerr + (fval option \<times> amort_row list option)" where
  "loan_step request =
     (if truthy_real (loan_amount request) \<and> truthy_real (interest_rate request)
         \<and> truthy_int (loan_term request)
      then
        (let total_rep = calculate_compound_interest
                       (the (loan_amount request)) (the (interest_rate request))
                       (the (loan_term request))
         in if truthy_bool (include_amortization request)
            then (case generate_amortization_schedule
                         (the (loan_amount request)) (the (interest_rate request))
                         (the (loan_term request)) of
                    Inl e \<Rightarrow> Inl e
                  | Inr sched \<Rightarrow> Inr (Some total_rep, Some sched))
            else Inr (Some total_rep, None))
      else Inr (None, None))"

text \<open>
  The body of the \<^verbatim>\<open>try\<close> block. The generated uuid and the clock reading are
  arguments; the store is passed in and returned.
\<close>

definition advance_body ::
  "string \<Rightarrow> string \<Rightarrow> AdvanceRequest \<Rightarrow> loans_db \<Rightarrow> pyerr + (AdvanceResponse \<times> loans_db)" where
  "advance_body new_uuid now request loans =
     (case convert_to_monthly_salary (gross_salary request) (pay_frequency request) of
        Inl e \<Rightarrow> Inl e
      | Inr monthly_salary \<Rightarrow>
          if \<not> (1000 \<le> monthly_salary) then
            Inr (\<lparr>eligible = False, max_advance = 0, approved_amount = 0, fee = 0,
                  total_repayable = None, amortization_schedule = None,
                  message = MsgIneligible, loan_id = None\<rparr>, loans)
          else
            let max_adv = monthly_salary * 0.5 in
            if max_adv < advance_amount request then
              Inr (\<lparr>eligible = True, max_advance = max_adv, approved_amount = 0, fee = 0,
                    total_repayable = None, amortization_schedule = None,
                    message = MsgExceeds (advance_amount request) max_adv, loan_id = None\<rparr>,
                   loans)
            else
              let fee' = max 10 (min 50 (advance_amount request * 0.05)) in
              (case loan_step request of
                Inl e \<Rightarrow> Inl e
              | Inr (total_rep, sched) \<Rightarrow>
                  let loan_record =
                        \<lparr>rec_loan_id = new_uuid,
                         rec_advance_amount = advance_amount request,
                         rec_fee = fee',
                         rec_timestamp = now,
                         rec_gross_salary = gross_salary request,
                         rec_pay_frequency = pay_frequency request,
                         rec_loan_amount = loan_amount request,
                         rec_interest_rate = interest_rate request,
                         rec_loan_term = loan_term request,
                         rec_total_repayable = total_rep,
                         rec_amortization_schedule = sched\<rparr>;
                      loans' = loans(new_uuid \<mapsto> loan_record);
                      msg = MsgApproved (advance_amount request) fee'
                              (if truthy_fval total_rep
                               then Some (the total_rep, loan_term request) else None)
                  in Inr (\<lparr>eligible = True, max_advance = max_adv,
                           approved_amount = advance_amount request, fee = fee',
                           total_repayable = total_rep, amortization_schedule = sched,
                           message = msg, loan_id = Some new_uuid\<rparr>, loans')))"

definition calculate_advance ::
  "string \<Rightarrow> string \<Rightarrow> AdvanceRequest \<Rightarrow> loans_db \<Rightarrow> http_error + (AdvanceResponse \<times> loans_db)" where
  "calculate_advance new_uuid now request loans =
     (case advance_body new_uuid now request loans of
        Inl (ValueError s) \<Rightarrow> Inl (HTTPException 400 s)
      | Inl ZeroDivisionError \<Rightarrow> Inl (HTTPException 500 ''Internal server error'')
      | Inl OverflowError \<Rightarrow> Inl (HTTPException 500 ''Internal server error'')
      | Inr r \<Rightarrow> Inr r)"

definition get_loan :: "string \<Rightarrow> loans_db \<Rightarrow> http_error + loan_record" where
  "get_loan lid loans =
     (case loans lid of
        None \<Rightarrow> Inl (HTTPException 404 ''Loan not found'')
      | Some r \<Rightarrow> Inr r)"

subsection \<open>Definitions that follow the specification\<close>

text \<open>The four pay frequencies the specification enumerates.\<close>

definition known_frequencies :: "string list" where
  "known_frequencies = [''Weekly'', ''Bi-Weekly'', ''Monthly'', ''Annually'']"


subsection \<open>Example requests and the record of an approved request\<close>

text \<open>A request without loan fields, and one with the loan triple.\<close>

definition advance_request :: "real \<Rightarrow> string \<Rightarrow> real \<Rightarrow> AdvanceRequest" where
  "advance_request g f a =
     \<lparr>gross_salary = g, pay_frequency = f, advance_amount = a, loan_amount = None,
      interest_rate = None, loan_term = None, include_amortization = Some False\<rparr>"

definition loan_request ::
  "real \<Rightarrow> string \<Rightarrow> real \<Rightarrow> real \<Rightarrow> real \<Rightarrow> int \<Rightarrow> bool \<Rightarrow> AdvanceRequest" where
  "loan_request g f a la ir lt am =
     \<lparr>gross_salary = g, pay_frequency = f, advance_amount = a, loan_amount = Some la,
      interest_rate = Some ir, loan_term = Some lt, include_amortization = Some am\<rparr>"

definition approved_record ::
  "string \<Rightarrow> string \<Rightarrow> AdvanceRequest \<Rightarrow> fval option \<Rightarrow> amort_row list option \<Rightarrow> loan_record" where
  "approved_record uid now r tr sch =
     \<lparr>rec_loan_id = uid, rec_advance_amount = advance_amount r,
      rec_fee = max 10 (min 50 (advance_amount r * 0.05)), rec_timestamp = now,
      rec_gross_salary = gross_salary r, rec_pay_frequency = pay_frequency r,
      rec_loan_amount = loan_amount r, rec_interest_rate = interest_rate r,
      rec_loan_term = loan_term r, rec_total_repayable = tr,
      rec_amortization_schedule = sch\<rparr>"

text \<open>The stored record holds the identifier, the timestamp and the request's fields.\<close>

definition request_snapshot :: "string \<Rightarrow> string \<Rightarrow> AdvanceRequest \<Rightarrow> loan_record \<Rightarrow> bool" where
  "request_snapshot uid now r rec \<longleftrightarrow>
     rec_loan_id rec = uid \<and> rec_timestamp rec = now \<and>
     rec_gross_salary rec = gross_salary r \<and>
     rec_pay_frequency rec = pay_frequency r \<and>
     rec_advance_amount rec = advance_amount r \<and>
     rec_loan_amount rec = loan_amount r \<and>
     rec_interest_rate rec = interest_rate r \<and>
     rec_loan_term rec = loan_term r"

section \<open>Properties\<close>

subsection \<open>The double range\<close>

text \<open>The overflow bound by repeated squaring (\<open>2^1024\<close> is ten squarings of 2), for evaluation.\<close>

lemma float_overflow_bound_code [code]:
  "float_overflow_bound =
     ((((((((((2::real) ^ 2) ^ 2) ^ 2) ^ 2) ^ 2) ^ 2) ^ 2) ^ 2) ^ 2) ^ 2 * (1 - 1 / 2 ^ 54)"
  by (simp add: float_overflow_bound_def)


subsection \<open>Compound interest\<close>





subsection \<open>Salary normalisation\<close>

text \<open>
  Claim C10, as the code has it. The conversion fails exactly for a frequency outside
  the four known ones, and the failure is a \<open>ValueError\<close> with the fixed text
  \<open>Invalid pay frequency\<close>; for the four known frequencies it returns the
  per-frequency monthly figure. It is a function of its two arguments only.
\<close>

theorem convert_to_monthly_salary_cases:
  "convert_to_monthly_salary g ''Weekly'' = Inr (g * 52 / 12) \<and>
   convert_to_monthly_salary g ''Bi-Weekly'' = Inr (g * 26 / 12) \<and>
   convert_to_monthly_salary g ''Monthly'' = Inr g \<and>
   convert_to_monthly_salary g ''Annually'' = Inr (g / 12) \<and>
   ((\<exists>e. convert_to_monthly_salary g f = Inl e) \<longleftrightarrow> f \<notin> set known_frequencies) \<and>
   (f \<notin> set known_frequencies \<longrightarrow>
      convert_to_monthly_salary g f = Inl (ValueError ''Invalid pay frequency''))"
  by (simp add: convert_to_monthly_salary_def known_frequencies_def)

theorem convert_to_monthly_salary_cases_witness:
  "''Daily'' \<notin> set known_frequencies \<and>
   convert_to_monthly_salary 500 ''Daily'' = Inl (ValueError ''Invalid pay frequency'') \<and>
   convert_to_monthly_salary 500 ''Weekly'' = Inr (500 * 52 / 12)"
  using convert_to_monthly_salary_cases [of 500 "''Daily''"]
  by (simp add: known_frequencies_def)

text \<open>
  The failure does not carry the offending frequency: for \<open>Daily\<close> its text is not
  \<open>Daily\<close>, and \<open>Hourly\<close> fails with the very same value.
\<close>

theorem invalid_frequency_value_counterexample:
  "convert_to_monthly_salary 500 ''Daily'' \<noteq> Inl (ValueError ''Daily'') \<and>
   convert_to_monthly_salary 500 ''Daily'' = convert_to_monthly_salary 500 ''Hourly''"
  by (simp add: convert_to_monthly_salary_def)

subsection \<open>The endpoint, branch by branch\<close>

lemma py_pow_error: "py_pow b n = Inl e \<Longrightarrow> e = ZeroDivisionError \<or> e = OverflowError"
  by (auto simp: py_pow_def split: if_splits)

lemma py_truediv_error: "py_truediv a b = Inl e \<Longrightarrow> e = ZeroDivisionError"
  by (auto simp: py_truediv_def split: if_splits)

lemma monthly_payment_of_error:
  "monthly_payment_of p mr n = Inl e \<Longrightarrow> e = ZeroDivisionError \<or> e = OverflowError"
  by (auto simp: monthly_payment_of_def split: sum.splits
           dest: py_pow_error py_truediv_error)

lemma generate_amortization_schedule_error:
  "generate_amortization_schedule p rate n = Inl e \<Longrightarrow>
     e = ZeroDivisionError \<or> e = OverflowError"
  by (auto simp: generate_amortization_schedule_def Let_def split: sum.splits
           dest: monthly_payment_of_error)

lemma loan_step_error: "loan_step r = Inl e \<Longrightarrow> e = ZeroDivisionError \<or> e = OverflowError"
  by (auto simp: loan_step_def Let_def split: if_splits sum.splits
           dest: generate_amortization_schedule_error)

lemma calculate_advance_ineligible:
  assumes "convert_to_monthly_salary (gross_salary r) (pay_frequency r) = Inr ms"
    and "\<not> 1000 \<le> ms"
  shows "calculate_advance uid now r db =
           Inr (\<lparr>eligible = False, max_advance = 0, approved_amount = 0, fee = 0,
                 total_repayable = None, amortization_schedule = None,
                 message = MsgIneligible, loan_id = None\<rparr>, db)"
  using assms by (simp add: calculate_advance_def advance_body_def)

lemma calculate_advance_exceeds:
  assumes "convert_to_monthly_salary (gross_salary r) (pay_frequency r) = Inr ms"
    and "1000 \<le> ms" and "ms * 0.5 < advance_amount r"
  shows "calculate_advance uid now r db =
           Inr (\<lparr>eligible = True, max_advance = ms * 0.5, approved_amount = 0, fee = 0,
                 total_repayable = None, amortization_schedule = None,
                 message = MsgExceeds (advance_amount r) (ms * 0.5), loan_id = None\<rparr>, db)"
  using assms by (simp add: calculate_advance_def advance_body_def Let_def)

lemma calculate_advance_approved:
  assumes "convert_to_monthly_salary (gross_salary r) (pay_frequency r) = Inr ms"
    and "1000 \<le> ms" and "advance_amount r \<le> ms * 0.5"
    and "loan_step r = Inr (tr, sch)"
  shows "calculate_advance uid now r db =
           Inr (\<lparr>eligible = True, max_advance = ms * 0.5,
                 approved_amount = advance_amount r,
                 fee = max 10 (min 50 (advance_amount r * 0.05)),
                 total_repayable = tr, amortization_schedule = sch,
                 message = MsgApproved (advance_amount r)
                             (max 10 (min 50 (advance_amount r * 0.05)))
                             (if truthy_fval tr then Some (the tr, loan_term r) else None),
                 loan_id = Some uid\<rparr>,
                db(uid \<mapsto> approved_record uid now r tr sch))"
  using assms
  by (simp add: calculate_advance_def advance_body_def Let_def approved_record_def)

lemma calculate_advance_loan_error:
  assumes "convert_to_monthly_salary (gross_salary r) (pay_frequency r) = Inr ms"
    and "1000 \<le> ms" and "advance_amount r \<le> ms * 0.5"
    and "loan_step r = Inl e"
  shows "calculate_advance uid now r db = Inl (HTTPException 500 ''Internal server error'')"
  using assms loan_step_error [OF assms(4)]
  by (auto simp: calculate_advance_def advance_body_def Let_def)

lemma calculate_advance_convert:
  assumes "calculate_advance uid now r db = Inr x"
  shows "\<exists>ms. convert_to_monthly_salary (gross_salary r) (pay_frequency r) = Inr ms"
  using assms
  by (cases "convert_to_monthly_salary (gross_salary r) (pay_frequency r)")
     (auto simp: calculate_advance_def advance_body_def split: pyerr.splits)

lemma calculate_advance_cases:
  assumes "calculate_advance uid now r db = Inr (resp, db')"
  obtains
    (ineligible) ms where
      "convert_to_monthly_salary (gross_salary r) (pay_frequency r) = Inr ms"
      "\<not> 1000 \<le> ms"
      "resp = \<lparr>eligible = False, max_advance = 0, approved_amount = 0, fee = 0,
                total_repayable = None, amortization_schedule = None,
                message = MsgIneligible, loan_id = None\<rparr>"
      "db' = db"
  | (exceeds) ms where
      "convert_to_monthly_salary (gross_salary r) (pay_frequency r) = Inr ms"
      "1000 \<le> ms" "ms * 0.5 < advance_amount r"
      "resp = \<lparr>eligible = True, max_advance = ms * 0.5, approved_amount = 0, fee = 0,
                total_repayable = None, amortization_schedule = None,
                message = MsgExceeds (advance_amount r) (ms * 0.5), loan_id = None\<rparr>"
      "db' = db"
  | (approved) ms tr sch where
      "convert_to_monthly_salary (gross_salary r) (pay_frequency r) = Inr ms"
      "1000 \<le> ms" "advance_amount r \<le> ms * 0.5"
      "loan_step r = Inr (tr, sch)"
      "resp = \<lparr>eligible = True, max_advance = ms * 0.5,
                approved_amount = advance_amount r,
                fee = max 10 (min 50 (advance_amount r * 0.05)),
                total_repayable = tr, amortization_schedule = sch,
                message = MsgApproved (advance_amount r)
                            (max 10 (min 50 (advance_amount r * 0.05)))
                            (if truthy_fval tr then Some (the tr, loan_term r) else None),
                loan_id = Some uid\<rparr>"
      "db' = db(uid \<mapsto> approved_record uid now r tr sch)"
proof -
  from calculate_advance_convert [OF assms] obtain ms where
    ms: "convert_to_monthly_salary (gross_salary r) (pay_frequency r) = Inr ms" by blast
  show thesis
  proof (cases "1000 \<le> ms")
    case False
    with calculate_advance_ineligible [OF ms, of uid now db] assms ineligible [OF ms]
    show thesis by simp
  next
    case elig: True
    show thesis
    proof (cases "ms * 0.5 < advance_amount r")
      case True
      with calculate_advance_exceeds [OF ms elig, of uid now db] assms exceeds [OF ms elig]
      show thesis by simp
    next
      case False
      then have le: "advance_amount r \<le> ms * 0.5" by simp
      show thesis
      proof (cases "loan_step r")
        case (Inl e)
        with calculate_advance_loan_error [OF ms elig le, of e uid now db] assms
        show thesis by simp
      next
        case (Inr x)
        obtain tr sch where x: "x = (tr, sch)" by (cases x)
        with Inr have ls: "loan_step r = Inr (tr, sch)" by simp
        from calculate_advance_approved [OF ms elig le ls, of uid now db] assms
          approved [OF ms elig le ls]
        show thesis by simp
      qed
    qed
  qed
qed

lemma convert_example_monthly:
  "convert_to_monthly_salary (gross_salary (advance_request g ''Monthly'' a))
     (pay_frequency (advance_request g ''Monthly'' a)) = Inr g"
  by (simp add: advance_request_def convert_to_monthly_salary_def)

lemma loan_step_advance_request: "loan_step (advance_request g f a) = Inr (None, None)"
  by (simp add: loan_step_def advance_request_def truthy_real_def)

lemma advance_amount_advance_request [simp]: "advance_amount (advance_request g f a) = a"
  by (simp add: advance_request_def)

subsection \<open>The stored record\<close>

text \<open>
  Claim C1, as the code has it. A loan record is stored exactly when the advance is
  approved (the salary is eligible and the requested advance is within the cap): then
  one entry is written under the generated identifier, it holds that identifier, the
  timestamp, the fields of the request and the computed loan figures, it is what
  \<open>get_loan\<close> returns, and the response carries the same identifier. On the ineligible
  and the over-cap branch the function returns early: nothing is stored and the response
  has no identifier.
\<close>

theorem loan_record_stored_iff_approved:
  assumes "calculate_advance uid now r db = Inr (resp, db')"
  shows "if eligible resp \<and> advance_amount r \<le> max_advance resp
         then loan_id resp = Some uid \<and>
              (\<exists>rec. db' = db(uid \<mapsto> rec) \<and> get_loan uid db' = Inr rec \<and>
                 request_snapshot uid now r rec \<and>
                 rec_total_repayable rec = total_repayable resp \<and>
                 rec_amortization_schedule rec = amortization_schedule resp)
         else loan_id resp = None \<and> db' = db"
  using assms
proof (cases rule: calculate_advance_cases)
  case (ineligible ms)
  then show ?thesis by simp
next
  case (exceeds ms)
  then show ?thesis by simp
next
  case (approved ms tr sch)
  then show ?thesis by (simp add: approved_record_def get_loan_def request_snapshot_def)
qed

theorem loan_record_stored_iff_approved_witness:
  "\<exists>resp db'.
     calculate_advance ''id-1'' ''t-1'' (advance_request 4000 ''Monthly'' 1500) Map.empty
       = Inr (resp, db') \<and>
     (loan_id resp = Some ''id-1'' \<and>
      (\<exists>rec. db' = Map.empty(''id-1'' \<mapsto> rec) \<and> get_loan ''id-1'' db' = Inr rec \<and>
         request_snapshot ''id-1'' ''t-1'' (advance_request 4000 ''Monthly'' 1500) rec \<and>
         rec_total_repayable rec = total_repayable resp \<and>
         rec_amortization_schedule rec = amortization_schedule resp))"
proof -
  have ge: "(1000::real) \<le> 4000" by simp
  have le: "advance_amount (advance_request 4000 ''Monthly'' 1500) \<le> 4000 * 0.5" by simp
  note eq = calculate_advance_approved
              [OF convert_example_monthly ge le loan_step_advance_request,
               of "''id-1''" "''t-1''" Map.empty]
  show ?thesis
    apply (rule exI, rule exI, rule conjI, rule eq)
    using loan_record_stored_iff_approved [OF eq]
    apply simp
    done
qed

text \<open>
  An ineligible request (500 a month) leaves the store as it was and gets no identifier.
\<close>

theorem rejected_request_not_stored_counterexample:
  "calculate_advance ''id-1'' ''t-1'' (advance_request 500 ''Monthly'' 100) Map.empty =
     Inr (\<lparr>eligible = False, max_advance = 0, approved_amount = 0, fee = 0,
           total_repayable = None, amortization_schedule = None,
           message = MsgIneligible, loan_id = None\<rparr>, Map.empty)"
  by (simp add: calculate_advance_def advance_body_def convert_to_monthly_salary_def
                advance_request_def)

subsection \<open>Maximum advance\<close>

text \<open>
  Claim C5, as the code has it. In every response the maximum advance is half of the
  normalised monthly salary (which is \<open>max 0\<close> of it, the salary being at least 1000)
  when the salary is eligible, and 0 on the ineligible branch.
\<close>

theorem max_advance_outcome:
  assumes "calculate_advance uid now r db = Inr (resp, db')"
  shows "\<exists>ms. convert_to_monthly_salary (gross_salary r) (pay_frequency r) = Inr ms \<and>
           eligible resp = (1000 \<le> ms) \<and>
           max_advance resp = (if 1000 \<le> ms then max 0 (ms * 0.5) else 0)"
  using assms
proof (cases rule: calculate_advance_cases)
  case (ineligible ms)
  then show ?thesis by simp
next
  case (exceeds ms)
  then show ?thesis by simp
next
  case (approved ms tr sch)
  then show ?thesis by simp
qed

theorem max_advance_outcome_witness:
  "\<exists>resp db'.
     calculate_advance ''id-1'' ''t-1'' (advance_request 4000 ''Monthly'' 1500) Map.empty
       = Inr (resp, db') \<and> eligible resp \<and> max_advance resp = 2000"
proof -
  have ge: "(1000::real) \<le> 4000" by simp
  have le: "advance_amount (advance_request 4000 ''Monthly'' 1500) \<le> 4000 * 0.5" by simp
  note eq = calculate_advance_approved
              [OF convert_example_monthly ge le loan_step_advance_request,
               of "''id-1''" "''t-1''" Map.empty]
  show ?thesis
    apply (rule exI, rule exI, rule conjI, rule eq)
    using max_advance_outcome [OF eq]
    apply simp
    done
qed

text \<open>
  For a monthly salary of 500 the response has maximum advance 0, not \<open>max 0 (500 * 0.5)\<close>.
\<close>

theorem ineligible_max_advance_counterexample:
  "convert_to_monthly_salary 500 ''Monthly'' = Inr 500 \<and>
   calculate_advance ''id-1'' ''t-1'' (advance_request 500 ''Monthly'' 100) Map.empty =
     Inr (\<lparr>eligible = False, max_advance = 0, approved_amount = 0, fee = 0,
           total_repayable = None, amortization_schedule = None,
           message = MsgIneligible, loan_id = None\<rparr>, Map.empty) \<and>
   (0::real) \<noteq> max 0 (500 * 0.5)"
  by (simp add: calculate_advance_def advance_body_def convert_to_monthly_salary_def
                advance_request_def)

subsection \<open>Fee\<close>

text \<open>
  Claim C6, as the code has it. On a rejected request (ineligible, or over the cap) the
  approved amount and the fee are both 0. On an approved request the approved amount is
  the requested one and the fee is \<open>max 10 (min 50 (0.05 * advance))\<close>, so at least 10,
  also when the requested and approved amount is 0.
\<close>

theorem fee_outcome:
  assumes "calculate_advance uid now r db = Inr (resp, db')"
  shows "if eligible resp \<and> advance_amount r \<le> max_advance resp
         then approved_amount resp = advance_amount r \<and>
              fee resp = max 10 (min 50 (advance_amount r * 0.05)) \<and> 10 \<le> fee resp
         else approved_amount resp = 0 \<and> fee resp = 0"
  using assms
proof (cases rule: calculate_advance_cases)
  case (ineligible ms)
  then show ?thesis by simp
next
  case (exceeds ms)
  then show ?thesis by simp
next
  case (approved ms tr sch)
  then show ?thesis by simp
qed

theorem fee_outcome_witness:
  "\<exists>resp db'.
     calculate_advance ''id-1'' ''t-1'' (advance_request 4000 ''Monthly'' 2500) Map.empty
       = Inr (resp, db') \<and> approved_amount resp = 0 \<and> fee resp = 0"
proof -
  have ge: "(1000::real) \<le> 4000" by simp
  have gt: "4000 * 0.5 < advance_amount (advance_request 4000 ''Monthly'' 2500)" by simp
  note eq = calculate_advance_exceeds
              [OF convert_example_monthly ge gt, of "''id-1''" "''t-1''" Map.empty]
  show ?thesis
    apply (rule exI, rule exI, rule conjI, rule eq)
    using fee_outcome [OF eq]
    apply simp
    done
qed

text \<open>
  An eligible request for an advance of 0 is approved at amount 0 and charged the fee 10.
\<close>

theorem zero_advance_fee_counterexample:
  "calculate_advance ''id-1'' ''t-1'' (advance_request 4000 ''Monthly'' 0) Map.empty =
     Inr (\<lparr>eligible = True, max_advance = 2000, approved_amount = 0, fee = 10,
           total_repayable = None, amortization_schedule = None,
           message = MsgApproved 0 10 None, loan_id = Some ''id-1''\<rparr>,
          [''id-1'' \<mapsto>
             approved_record ''id-1'' ''t-1'' (advance_request 4000 ''Monthly'' 0) None None])"
proof -
  have ge: "(1000::real) \<le> 4000" by simp
  have le: "advance_amount (advance_request 4000 ''Monthly'' 0) \<le> 4000 * 0.5" by simp
  from calculate_advance_approved
         [OF convert_example_monthly ge le loan_step_advance_request,
          of "''id-1''" "''t-1''" Map.empty]
  show ?thesis by (simp add: truthy_fval_def)
qed




lemma advance_amount_loan_request [simp]:
  "advance_amount (loan_request g f a la ir lt am) = a"
  by (simp add: loan_request_def)





subsection \<open>Approval and fee\<close>




subsection \<open>Total repayable in the outcome\<close>




subsection \<open>The loan functions on their own\<close>








lemma py_pow_overflow:
  assumes "\<bar>real_of_int n\<bar> < float_overflow_bound" and "0 \<le> n"
    and "float_overflow_bound \<le> b ^ nat n"
  shows "py_pow b n = Inl OverflowError"
proof -
  have "b ^ nat n \<le> \<bar>b ^ nat n\<bar>" by simp
  with assms(3) have "float_overflow_bound \<le> \<bar>b ^ nat n\<bar>" by linarith
  with assms(1,2) show ?thesis by (simp add: py_pow_def power_int_def)
qed

lemma generate_amortization_schedule_pow_error:
  assumes "py_pow (float_one_plus (rate / 100 / 12)) n = Inl e"
  shows "generate_amortization_schedule p rate n = Inl e"
  using assms by (simp add: generate_amortization_schedule_def Let_def monthly_payment_of_def)

lemma power_9000_lower:
  fixes b :: real
  assumes "2 ^ 3 \<le> b ^ 26" and "1 \<le> b"
  shows "2 ^ 1038 \<le> b ^ 9000"
proof -
  have "(2::real) ^ 1038 = (2 ^ 3) ^ 346" by (simp only: power_mult [symmetric]) simp
  also have "\<dots> \<le> (b ^ 26) ^ 346" using assms(1) by (rule power_mono) simp
  also have "\<dots> = b ^ 8996" by (simp only: power_mult [symmetric]) simp
  also have "\<dots> \<le> b ^ 9000" using assms(2) by (rule power_increasing [rotated]) simp
  finally show ?thesis .
qed

text \<open>
  Two requests at which only the double format makes the payment formula raise: at 100
  percent over 9000 months the power \<open>(13/12)^9000\<close> is beyond the double range, and at
  a rate of \<open>10^-13\<close> percent the base \<^verbatim>\<open>1 + monthly_rate\<close> is 1.0, so the divisor is 0.
\<close>

lemma schedule_overflow_example:
  "generate_amortization_schedule 10000 100 9000 = Inl OverflowError"
proof -
  have b: "float_one_plus (100 / 100 / 12) = 13 / 12"
    by (simp add: float_one_plus_def)
  have "(2::real) ^ 3 \<le> (13 / 12) ^ 26" by code_simp
  then have pw: "(2::real) ^ 1038 \<le> (13 / 12) ^ 9000"
    by (rule power_9000_lower) simp
  have bnd: "float_overflow_bound \<le> 2 ^ 1038"
    by (simp add: float_overflow_bound_def)
  have "float_overflow_bound \<le> (13 / 12) ^ 9000"
    using bnd pw by (rule order_trans)
  then have big: "float_overflow_bound \<le> (13 / 12) ^ nat 9000"
    by (simp only: nat_numeral)
  have small: "\<bar>real_of_int 9000\<bar> < float_overflow_bound"
    by (simp add: float_overflow_bound_def)
  have "py_pow (13 / 12) 9000 = Inl OverflowError"
    using small _ big by (rule py_pow_overflow) simp
  then have "py_pow (float_one_plus (100 / 100 / 12)) 9000 = Inl OverflowError"
    by (simp only: b)
  then show ?thesis by (rule generate_amortization_schedule_pow_error)
qed

lemma schedule_tiny_rate_example:
  "generate_amortization_schedule 10000 (1 / 10 ^ 13) 12 = Inl ZeroDivisionError"
  by code_simp





text \<open>
  Claim C2, at 1200 borrowed at 12 percent over 2 months. The interest column is
  computed from the balance column while that still holds the principal in every row,
  so the second row charges interest 12 on the initial 1200, where the balance before
  that payment is 602.99 and one percent of it is 6.03.
\<close>

theorem schedule_interest_on_initial_balance:
  "generate_amortization_schedule 1200 12 2 =
     Inr [\<lparr>Month = 1, Payment = 609.01, Principal = 597.01, Interest = 12, Balance = 602.99\<rparr>,
          \<lparr>Month = 2, Payment = 609.01, Principal = 597.01, Interest = 12, Balance = 5.98\<rparr>] \<and>
   round2 (602.99 * (12 / 100 / 12)) = 6.03"
  by code_simp

text \<open>
  Claim C3, at 10000 borrowed at 5 percent over 12 months. Every row repays 814.40 of
  principal, 9772.80 in all, and the balance after the last payment is 227.16, not 0.
\<close>

theorem schedule_does_not_amortize:
  "map_sum id (map Principal) (generate_amortization_schedule 10000 5 12) =
     Inr [814.4, 814.4, 814.4, 814.4, 814.4, 814.4, 814.4, 814.4, 814.4, 814.4, 814.4, 814.4] \<and>
   map_sum id (map Balance) (generate_amortization_schedule 10000 5 12) =
     Inr [9185.6, 8371.19, 7556.79, 6742.39, 5927.98, 5113.58, 4299.18, 3484.77, 2670.37,
          1855.97, 1041.56, 227.16] \<and>
   sum_list [814.4, 814.4, 814.4, 814.4, 814.4, 814.4, 814.4, 814.4, 814.4, 814.4, 814.4,
             814.4 :: real] = 9772.8"
  by code_simp

end
